theory Spec2Isabelle
  imports Main "HOL-Library.Sublist"
begin

section \<open>socksies: managing SSH SOCKS proxies from a YAML configuration\<close>

text \<open>
  A shallow embedding of \<^verbatim>\<open>socksies.py\<close>. The program reads a YAML file, builds one
  dictionary per proxy and shells out to \<^verbatim>\<open>ssh\<close>, \<^verbatim>\<open>pgrep\<close> and
  \<^verbatim>\<open>pkill\<close>. Everything outside the script (the file system, the YAML parser,
  \<^verbatim>\<open>os.path.expanduser\<close>, the child processes, argparse) is a parameter of the
  model; everything the script itself does is a definition below.
\<close>

subsection \<open>Values\<close>

text \<open>
  The values \<^verbatim>\<open>yaml.safe_load\<close> puts into the fields of a proxy: \<^verbatim>\<open>None\<close>, a
  \<^verbatim>\<open>bool\<close>, an \<^verbatim>\<open>int\<close> or a \<^verbatim>\<open>str\<close>. Floats, timestamps, binary data and
  nested collections as field values are outside the model.
\<close>

datatype scalar = SNone | SBool bool | SInt int | SStr string

text \<open>Python's truth value of an object, as \<^verbatim>\<open>not x\<close> tests it.\<close>

fun truthy :: "scalar \<Rightarrow> bool" where
  "truthy SNone = False"
| "truthy (SBool b) = b"
| "truthy (SInt i) = (i \<noteq> 0)"
| "truthy (SStr s) = (s \<noteq> [])"

text \<open>Decimal rendering of an \<^verbatim>\<open>int\<close>, as \<^verbatim>\<open>str\<close> and an f-string give it.\<close>

fun str_nat :: "nat \<Rightarrow> string" where
  "str_nat n =
     (if n < 10 then [''0123456789'' ! n]
      else str_nat (n div 10) @ [''0123456789'' ! (n mod 10)])"

declare str_nat.simps [simp del]

definition str_int :: "int \<Rightarrow> string" where
  "str_int i = (if i < 0 then CHR ''-'' # str_nat (nat (- i)) else str_nat (nat i))"

text \<open>\<^verbatim>\<open>str(x)\<close>, which is also what \<^verbatim>\<open>f"{x}"\<close> inserts.\<close>

fun py_str :: "scalar \<Rightarrow> string" where
  "py_str SNone = ''None''"
| "py_str (SBool b) = (if b then ''True'' else ''False'')"
| "py_str (SInt i) = str_int i"
| "py_str (SStr s) = s"

text \<open>\<^verbatim>\<open>sep.join(xs)\<close> on a list of strings.\<close>

fun join :: "string \<Rightarrow> string list \<Rightarrow> string" where
  "join sep [] = []"
| "join sep [x] = x"
| "join sep (x # y # ys) = x @ sep @ join sep (y # ys)"

text \<open>
  The exceptions the script can raise. \<open>FileNotFoundError\<close> is what \<^verbatim>\<open>open\<close> raises
  on a missing file and what \<^verbatim>\<open>subprocess.run\<close> raises when the program to run does
  not exist; \<open>YAMLError\<close> is the parser's; \<open>AttributeError\<close> is \<^verbatim>\<open>.items()\<close> or
  \<^verbatim>\<open>.get()\<close> on an object that is not a dictionary; \<open>TypeError\<close> is
  \<^verbatim>\<open>os.path.expanduser\<close> or \<^verbatim>\<open>str.join\<close> on a value that is not a string, and a
  subscript on a scalar.
\<close>

datatype error = FileNotFoundError | YAMLError | AttributeError | TypeError

text \<open>\<^verbatim>\<open>x['key']\<close> on a scalar: no scalar can be subscripted with a string.\<close>

definition getitem :: "scalar \<Rightarrow> string \<Rightarrow> error + scalar" where
  "getitem x key = Inl TypeError"

subsection \<open>The configuration file\<close>

text \<open>
  The value of one top-level key: a dictionary (its items), or any other object.
  The whole document likewise. \<open>config_file\<close> is what \<^verbatim>\<open>open\<close> followed by
  \<^verbatim>\<open>yaml.safe_load\<close> gives: no file, a file the parser rejects, or a document.
\<close>

datatype proxy_data = Mapping "(scalar \<times> scalar) list" | NotMapping

datatype document = Document "(scalar \<times> proxy_data) list" | NotDocument

datatype config_file = Missing | Unparsable | Parsed document

text \<open>The dictionary \<^verbatim>\<open>parse_proxy_config\<close> builds for one proxy.\<close>

record proxy =
  name :: scalar
  host :: scalar
  port :: scalar
  identity_file :: scalar

text \<open>\<^verbatim>\<open>d.get(key, default)\<close>.\<close>

definition dict_get :: "(scalar \<times> scalar) list \<Rightarrow> string \<Rightarrow> scalar \<Rightarrow> scalar" where
  "dict_get d key dflt = (case map_of d (SStr key) of None \<Rightarrow> dflt | Some v \<Rightarrow> v)"

subsection \<open>The environment and the state\<close>

text \<open>
  A child process is started from an argument vector, or from a shell command line
  (\<^verbatim>\<open>shell=True\<close>). It exits with a status, or cannot be started at all.
\<close>

datatype cmd = Argv "string list" | Shell string

datatype proc_result = Exited int | NotLaunched

text \<open>
  What the script takes from outside: the path in \<^verbatim>\<open>CONFIG_FILE\<close>, the content
  of that file, \<^verbatim>\<open>os.path.expanduser\<close>, the operating system running a child
  process in a world \<open>'w\<close>, the text of a \<^verbatim>\<open>CalledProcessError\<close> and the help text of
  argparse.
\<close>

record 'w env =
  CONFIG_FILE :: string
  config :: config_file
  expanduser :: "string \<Rightarrow> string"
  os_run :: "cmd \<Rightarrow> 'w \<Rightarrow> proc_result \<times> 'w"
  cpe_str :: "string list \<Rightarrow> int \<Rightarrow> string"
  format_help :: string

text \<open>
  The state of one invocation: the world, what has been printed (one entry per
  \<^verbatim>\<open>print\<close>), and every child process started so far with its result.
\<close>

record 'w state =
  world :: 'w
  stdout :: "string list"
  calls :: "(cmd \<times> proc_result) list"

definition print :: "string \<Rightarrow> 'w state \<Rightarrow> 'w state" where
  "print s st = st\<lparr>stdout := stdout st @ [s]\<rparr>"

text \<open>
  \<^verbatim>\<open>subprocess.run(cmd)\<close> up to the point where it has an exit status: the child
  runs in the world, and the call is recorded.
\<close>

definition subprocess_run :: "'w env \<Rightarrow> cmd \<Rightarrow> 'w state \<Rightarrow> proc_result \<times> 'w state" where
  "subprocess_run env c st =
     (let (r, w) = os_run env c (world st)
      in (r, st\<lparr>world := w, calls := calls st @ [(c, r)]\<rparr>))"

subsection \<open>Loading and searching\<close>

text \<open>The loop of \<^verbatim>\<open>parse_proxy_config\<close> over \<^verbatim>\<open>proxy_config.items()\<close>.\<close>

fun parse_items :: "(scalar \<times> proxy_data) list \<Rightarrow> proxy list \<Rightarrow> error + proxy list" where
  "parse_items [] proxies = Inr proxies"
| "parse_items ((proxy_name, NotMapping) # rest) proxies = Inl AttributeError"
| "parse_items ((proxy_name, Mapping proxy_data) # rest) proxies =
     parse_items rest
       (proxies @
        [\<lparr>name = proxy_name,
          host = dict_get proxy_data ''host'' (SStr ''--''),
          port = dict_get proxy_data ''port'' (SStr ''--''),
          identity_file = dict_get proxy_data ''identity_file'' (SStr [])\<rparr>])"

definition parse_proxy_config :: "'w env \<Rightarrow> error + proxy list" where
  "parse_proxy_config env =
     (case config env of
        Missing \<Rightarrow> Inl FileNotFoundError
      | Unparsable \<Rightarrow> Inl YAMLError
      | Parsed NotDocument \<Rightarrow> Inl AttributeError
      | Parsed (Document proxy_config) \<Rightarrow> parse_items proxy_config [])"

text \<open>The loop of \<^verbatim>\<open>_proxy_search\<close>: the first proxy whose name is the string searched.\<close>

fun search_loop :: "proxy list \<Rightarrow> string \<Rightarrow> proxy option" where
  "search_loop [] proxy_name = None"
| "search_loop (p # rest) proxy_name =
     (if name p = SStr proxy_name then Some p else search_loop rest proxy_name)"

definition proxy_search :: "'w env \<Rightarrow> string \<Rightarrow> error + proxy option" where
  "proxy_search env proxy_name =
     (case parse_proxy_config env of
        Inl e \<Rightarrow> Inl e
      | Inr proxies \<Rightarrow> Inr (search_loop proxies proxy_name))"

subsection \<open>The messages\<close>

text \<open>\<^verbatim>\<open>'{x}'\<close> in an f-string: the text between two apostrophes.\<close>

definition quoted :: "string \<Rightarrow> string" where
  "quoted s = [CHR 0x27] @ s @ [CHR 0x27]"

text \<open>\<^verbatim>\<open>{name} ({host}:{port})\<close>, the form every listing line ends with.\<close>

definition name_host_port :: "scalar \<Rightarrow> scalar \<Rightarrow> scalar \<Rightarrow> string" where
  "name_host_port n h p = py_str n @ '' ('' @ py_str h @ '':'' @ py_str p @ '')''"

definition not_found_msg :: "'w env \<Rightarrow> string \<Rightarrow> string" where
  "not_found_msg env proxy_name =
     ''Error: Proxy '' @ quoted proxy_name @ '' not found in '' @ CONFIG_FILE env @ ''.''"

definition incomplete_msg :: "string \<Rightarrow> string" where
  "incomplete_msg proxy_name =
     ''Error: Incomplete config for '' @ quoted proxy_name @
     ''. Check host, port, and identity_file.''"

subsection \<open>list and info\<close>

fun list_loop :: "proxy list \<Rightarrow> 'w state \<Rightarrow> 'w state" where
  "list_loop [] st = st"
| "list_loop (p # rest) st =
     list_loop rest (print (''- '' @ name_host_port (name p) (host p) (port p)) st)"

definition proxy_list :: "'w env \<Rightarrow> 'w state \<Rightarrow> (error + unit) \<times> 'w state" where
  "proxy_list env st =
     (let st1 = print ''Listing configured Proxies:'' st
      in case parse_proxy_config env of
           Inl e \<Rightarrow> (Inl e, st1)
         | Inr proxies \<Rightarrow> (Inr (), list_loop proxies st1))"

definition proxy_info :: "'w env \<Rightarrow> string \<Rightarrow> 'w state \<Rightarrow> (error + unit) \<times> 'w state" where
  "proxy_info env proxy_name st =
     (case proxy_search env proxy_name of
        Inl e \<Rightarrow> (Inl e, st)
      | Inr None \<Rightarrow> (Inr (), print (not_found_msg env proxy_name) st)
      | Inr (Some found_proxy) \<Rightarrow>
          (Inr (),
           print (''  Identity File: '' @ py_str (identity_file found_proxy))
             (print (''  Port: '' @ py_str (port found_proxy))
               (print (''  Host: '' @ py_str (host found_proxy))
                 (print (''Proxy: '' @ py_str (name found_proxy)) st)))))"

subsection \<open>The command lines\<close>

text \<open>
  The three places that spell the ssh command line: the pattern \<^verbatim>\<open>proxy_status\<close>
  hands to pgrep, the pattern \<^verbatim>\<open>_disconnect_single_proxy\<close> hands to pkill, and the
  argument vector \<^verbatim>\<open>proxy_connect\<close> runs. \<open>proxy_id\<close> is the identity file after
  \<^verbatim>\<open>os.path.expanduser\<close>.
\<close>

definition pattern :: "scalar \<Rightarrow> string \<Rightarrow> scalar \<Rightarrow> string" where
  "pattern proxy_port proxy_id proxy_host =
     ''ssh -D '' @ py_str proxy_port @ '' -i '' @ proxy_id @ '' -q -C -f -N '' @ py_str proxy_host"

definition ssh_cmd_pattern :: "scalar \<Rightarrow> string \<Rightarrow> scalar \<Rightarrow> string" where
  "ssh_cmd_pattern proxy_port proxy_id proxy_host =
     ''ssh -D '' @ py_str proxy_port @ '' -N '' @ py_str proxy_host @ '' -q -C -f -i '' @ proxy_id"

definition connect_cmd :: "scalar \<Rightarrow> string \<Rightarrow> string \<Rightarrow> string list" where
  "connect_cmd proxy_port proxy_id proxy_host =
     [''ssh'', ''-D'', py_str proxy_port, ''-i'', proxy_id, ''-q'', ''-C'', ''-f'', ''-N'',
      proxy_host]"

definition verbose_cmd :: string where
  "verbose_cmd =
     ''ps aux | head -n 1 ; '' @
     ''ps aux | grep -P '' @ [CHR 0x22] @ ''ssh.-D.'' @ [CHR 0x5C] @ ''d.*'' @ [CHR 0x22] @ '' ; '' @
     ''echo '' @ [CHR 0x22] @ ''---'' @ [CHR 0x22] @ '' ; '' @
     ''ss -tlnp | head -n 1 ; '' @
     ''ss -tlnp | grep ssh''"

subsection \<open>status\<close>

text \<open>
  The first loop of \<^verbatim>\<open>proxy_status\<close>: one pgrep per proxy, run with
  \<^verbatim>\<open>check=False\<close>; the name of the proxy is appended to \<open>connected\<close> when pgrep
  exits with 0.
\<close>

fun status_loop ::
  "'w env \<Rightarrow> proxy list \<Rightarrow> scalar list \<Rightarrow> 'w state \<Rightarrow> (error + scalar list) \<times> 'w state" where
  "status_loop env [] connected st = (Inr connected, st)"
| "status_loop env (proxy # rest) connected st =
     (case identity_file proxy of
        SStr i \<Rightarrow>
          (let search_cmd =
                 Argv [''pgrep'', ''-af'', pattern (port proxy) (expanduser env i) (host proxy)]
           in case subprocess_run env search_cmd st of
                (NotLaunched, st1) \<Rightarrow> (Inl FileNotFoundError, st1)
              | (Exited returncode, st1) \<Rightarrow>
                  status_loop env rest
                    (if returncode = 0 then connected @ [name proxy] else connected) st1)
      | _ \<Rightarrow> (Inl TypeError, st))"

text \<open>
  The second loop, over \<open>connected\<close>: each element is subscripted with
  \<^verbatim>\<open>'name'\<close>, \<^verbatim>\<open>'host'\<close> and \<^verbatim>\<open>'port'\<close> to build the line.
\<close>

fun print_connected :: "scalar list \<Rightarrow> 'w state \<Rightarrow> (error + unit) \<times> 'w state" where
  "print_connected [] st = (Inr (), st)"
| "print_connected (proxy # rest) st =
     (case getitem proxy ''name'' of
        Inl e \<Rightarrow> (Inl e, st)
      | Inr n \<Rightarrow>
          (case getitem proxy ''host'' of
             Inl e \<Rightarrow> (Inl e, st)
           | Inr h \<Rightarrow>
               (case getitem proxy ''port'' of
                  Inl e \<Rightarrow> (Inl e, st)
                | Inr p \<Rightarrow> print_connected rest (print (''- '' @ name_host_port n h p) st))))"

definition proxy_status :: "'w env \<Rightarrow> bool \<Rightarrow> 'w state \<Rightarrow> (error + unit) \<times> 'w state" where
  "proxy_status env verbose st =
     (case parse_proxy_config env of
        Inl e \<Rightarrow> (Inl e, st)
      | Inr proxies \<Rightarrow>
          (case status_loop env proxies [] st of
             (Inl e, st1) \<Rightarrow> (Inl e, st1)
           | (Inr connected, st1) \<Rightarrow>
               if connected \<noteq> [] then
                 if verbose then
                   (case subprocess_run env (Shell verbose_cmd)
                           (print ''Running verbose status command:'' st1) of
                      (NotLaunched, st2) \<Rightarrow> (Inl FileNotFoundError, st2)
                    | (Exited returncode, st2) \<Rightarrow> (Inr (), st2))
                 else print_connected connected (print ''Currently connected proxies:'' st1)
               else (Inr (), print ''No proxies appear to be connected.'' st1)))"

subsection \<open>connect\<close>

definition proxy_connect :: "'w env \<Rightarrow> string \<Rightarrow> 'w state \<Rightarrow> (error + unit) \<times> 'w state" where
  "proxy_connect env proxy_name st =
     (case proxy_search env proxy_name of
        Inl e \<Rightarrow> (Inl e, st)
      | Inr None \<Rightarrow> (Inr (), print (not_found_msg env proxy_name) st)
      | Inr (Some found_proxy) \<Rightarrow>
          (let proxy_host = host found_proxy;
               proxy_port = port found_proxy;
               proxy_id = identity_file found_proxy
           in if \<not> truthy proxy_host \<or> \<not> truthy proxy_port \<or> \<not> truthy proxy_id
              then (Inr (), print (incomplete_msg proxy_name) st)
              else
                (case proxy_id of
                   SStr i \<Rightarrow>
                     (let st1 = print (''Establishing SOCKS proxy with: '' @
                                       name_host_port (SStr proxy_name) proxy_host proxy_port) st
                      in case proxy_host of
                           SStr h \<Rightarrow>
                             (let argv = connect_cmd proxy_port (expanduser env i) h;
                                  st2 = print (''SSH command: '' @ join '' '' argv) st1
                              in case subprocess_run env (Argv argv) st2 of
                                   (NotLaunched, st3) \<Rightarrow> (Inl FileNotFoundError, st3)
                                 | (Exited returncode, st3) \<Rightarrow>
                                     if returncode = 0
                                     then (Inr (),
                                           print (''Connection established to '' @ py_str proxy_host @
                                                  '' on SOCKS port '' @ py_str proxy_port @ ''.'') st3)
                                     else (Inr (),
                                           print (''Error: Failed to connect to '' @
                                                  quoted proxy_name @ '' ('' @ py_str proxy_host @
                                                  '':'' @ py_str proxy_port @ '').'' @ [CHR 0x0A] @
                                                  cpe_str env argv returncode) st3))
                         | _ \<Rightarrow> (Inl TypeError, st1))
                 | _ \<Rightarrow> (Inl TypeError, st))))"

subsection \<open>disconnect\<close>

text \<open>
  \<^verbatim>\<open>_disconnect_single_proxy\<close>: pkill is run with \<^verbatim>\<open>check=True\<close>, and the
  \<^verbatim>\<open>CalledProcessError\<close> of a non-zero exit status is caught and turned into
  \<^verbatim>\<open>False\<close>.
\<close>

definition disconnect_single_proxy ::
  "'w env \<Rightarrow> proxy \<Rightarrow> 'w state \<Rightarrow> (error + bool) \<times> 'w state" where
  "disconnect_single_proxy env proxy_dict st =
     (case identity_file proxy_dict of
        SStr i \<Rightarrow>
          (let pkill_cmd =
                 Argv [''pkill'', ''-f'',
                       ssh_cmd_pattern (port proxy_dict) (expanduser env i) (host proxy_dict)]
           in case subprocess_run env pkill_cmd st of
                (NotLaunched, st1) \<Rightarrow> (Inl FileNotFoundError, st1)
              | (Exited returncode, st1) \<Rightarrow>
                  if returncode = 0
                  then (Inr True,
                        print (''Disconnected proxy: '' @
                               name_host_port (name proxy_dict) (host proxy_dict) (port proxy_dict))
                          st1)
                  else (Inr False, st1))
      | _ \<Rightarrow> (Inl TypeError, st))"

text \<open>The loop of \<^verbatim>\<open>proxy_disconnect\<close> for \<^verbatim>\<open>all\<close>, with its flag.\<close>

fun disconnect_loop ::
  "'w env \<Rightarrow> proxy list \<Rightarrow> bool \<Rightarrow> 'w state \<Rightarrow> (error + bool) \<times> 'w state" where
  "disconnect_loop env [] any_disconnected st = (Inr any_disconnected, st)"
| "disconnect_loop env (proxy # rest) any_disconnected st =
     (case disconnect_single_proxy env proxy st of
        (Inl e, st1) \<Rightarrow> (Inl e, st1)
      | (Inr killed, st1) \<Rightarrow>
          disconnect_loop env rest (if killed then True else any_disconnected) st1)"

definition proxy_disconnect :: "'w env \<Rightarrow> string \<Rightarrow> 'w state \<Rightarrow> (error + unit) \<times> 'w state" where
  "proxy_disconnect env proxy_name st =
     (if proxy_name = ''all'' then
        (case parse_proxy_config env of
           Inl e \<Rightarrow> (Inl e, st)
         | Inr proxies \<Rightarrow>
             (case disconnect_loop env proxies False
                     (print ''Disconnecting from all configured proxies.'' st) of
                (Inl e, st1) \<Rightarrow> (Inl e, st1)
              | (Inr any_disconnected, st1) \<Rightarrow>
                  if \<not> any_disconnected
                  then (Inr (), print ''No active proxies were found to disconnect.'' st1)
                  else (Inr (), st1)))
      else
        (case proxy_search env proxy_name of
           Inl e \<Rightarrow> (Inl e, st)
         | Inr None \<Rightarrow> (Inr (), print (not_found_msg env proxy_name) st)
         | Inr (Some found_proxy) \<Rightarrow>
             (case disconnect_single_proxy env found_proxy st of
                (Inl e, st1) \<Rightarrow> (Inl e, st1)
              | (Inr killed, st1) \<Rightarrow> (Inr (), st1))))"

subsection \<open>main\<close>

text \<open>
  The namespace argparse returns: one of the five subcommands with its argument, or
  nothing (no \<^verbatim>\<open>func\<close> attribute), for which the help is printed.
\<close>

datatype args =
  Cmd_status bool | Cmd_list | Cmd_info string | Cmd_connect string | Cmd_disconnect string

definition main :: "'w env \<Rightarrow> args option \<Rightarrow> 'w state \<Rightarrow> (error + unit) \<times> 'w state" where
  "main env args st =
     (case args of
        None \<Rightarrow> (Inr (), print (format_help env) st)
      | Some (Cmd_status verbose) \<Rightarrow> proxy_status env verbose st
      | Some Cmd_list \<Rightarrow> proxy_list env st
      | Some (Cmd_info proxy_name) \<Rightarrow> proxy_info env proxy_name st
      | Some (Cmd_connect proxy_name) \<Rightarrow> proxy_connect env proxy_name st
      | Some (Cmd_disconnect proxy_name) \<Rightarrow> proxy_disconnect env proxy_name st)"

subsection \<open>A sample configuration and sample environments\<close>

text \<open>
  The configuration of the test suite: \<open>proxy1\<close> with all three fields, \<open>proxy2\<close>
  without an identity file; and one more entry, \<open>proxy3\<close>, that has an identity file
  but neither host nor port.
\<close>

definition sample_items :: "(scalar \<times> proxy_data) list" where
  "sample_items =
     [(SStr ''proxy1'',
       Mapping [(SStr ''host'', SStr ''172.31.0.51''), (SStr ''port'', SInt 9051),
                (SStr ''identity_file'', SStr ''~/.ssh/private_key'')]),
      (SStr ''proxy2'',
       Mapping [(SStr ''host'', SStr ''172.31.0.52''), (SStr ''port'', SInt 9052)]),
      (SStr ''proxy3'',
       Mapping [(SStr ''identity_file'', SStr ''~/.ssh/private_key'')])]"

definition proxy1 :: proxy where
  "proxy1 = \<lparr>name = SStr ''proxy1'', host = SStr ''172.31.0.51'', port = SInt 9051,
              identity_file = SStr ''~/.ssh/private_key''\<rparr>"

definition proxy2 :: proxy where
  "proxy2 = \<lparr>name = SStr ''proxy2'', host = SStr ''172.31.0.52'', port = SInt 9052,
              identity_file = SStr []\<rparr>"

definition proxy3 :: proxy where
  "proxy3 = \<lparr>name = SStr ''proxy3'', host = SStr ''--'', port = SStr ''--'',
              identity_file = SStr ''~/.ssh/private_key''\<rparr>"

text \<open>A home directory for \<^verbatim>\<open>~\<close>, and an environment around a configuration and a system.\<close>

definition home_expanduser :: "string \<Rightarrow> string" where
  "home_expanduser path = (if take 2 path = ''~/'' then ''/home/user'' @ drop 1 path else path)"

definition sample_env :: "config_file \<Rightarrow> (cmd \<Rightarrow> nat \<Rightarrow> proc_result \<times> nat) \<Rightarrow> nat env" where
  "sample_env cfg os =
     \<lparr>CONFIG_FILE = ''/opt/socksies/proxy-config.yml'', config = cfg,
      expanduser = home_expanduser, os_run = os,
      cpe_str = (\<lambda>argv returncode. ''Command returned non-zero exit status.''),
      format_help = ''usage: socksies''\<rparr>"

text \<open>
  Three systems, whose world counts the child processes run: one where every child
  exits with the same status, one where no program can be started, and one where only
  the first child exits with 0.
\<close>

definition os_exit :: "int \<Rightarrow> cmd \<Rightarrow> nat \<Rightarrow> proc_result \<times> nat" where
  "os_exit returncode c w = (Exited returncode, Suc w)"

definition os_missing :: "cmd \<Rightarrow> nat \<Rightarrow> proc_result \<times> nat" where
  "os_missing c w = (NotLaunched, w)"

definition os_first :: "cmd \<Rightarrow> nat \<Rightarrow> proc_result \<times> nat" where
  "os_first c w = (Exited (if w = 0 then 0 else 1), Suc w)"

definition st0 :: "nat state" where
  "st0 = \<lparr>world = 0, stdout = [], calls = []\<rparr>"

text \<open>
  A configuration whose second proxy has the key \<^verbatim>\<open>identity_file\<close> with no value,
  which YAML loads as \<^verbatim>\<open>None\<close>.
\<close>

definition null_identity_items :: "(scalar \<times> proxy_data) list" where
  "null_identity_items =
     [(SStr ''proxy1'',
       Mapping [(SStr ''host'', SStr ''172.31.0.51''), (SStr ''port'', SInt 9051),
                (SStr ''identity_file'', SStr ''~/.ssh/private_key'')]),
      (SStr ''proxy2'',
       Mapping [(SStr ''host'', SStr ''172.31.0.52''), (SStr ''port'', SInt 9052),
                (SStr ''identity_file'', SNone)])]"

subsection \<open>Children run one after the other\<close>

text \<open>
  What the system does with a sequence of children: \<open>exits env cs w rs w'\<close> holds when
  the children \<open>cs\<close>, run in turn from the world \<open>w\<close>, each start and exit, with the
  statuses \<open>rs\<close>, and leave the world \<open>w'\<close>.
\<close>

fun exits :: "'w env \<Rightarrow> cmd list \<Rightarrow> 'w \<Rightarrow> int list \<Rightarrow> 'w \<Rightarrow> bool" where
  "exits env [] w [] w' = (w' = w)"
| "exits env (c # cs) w (r # rs) w' =
     (fst (os_run env c w) = Exited r \<and> exits env cs (snd (os_run env c w)) rs w')"
| "exits env [] w (r # rs) w' = False"
| "exits env (c # cs) w [] w' = False"

section \<open>Exit statuses of a sequence of children\<close>

lemma exits_length: "exits env cs w rs w' \<Longrightarrow> length rs = length cs"
  by (induction env cs w rs w' rule: exits.induct) auto

section \<open>The sample configuration, loaded\<close>

lemma parse_sample:
  "parse_proxy_config (sample_env (Parsed (Document sample_items)) os) =
     Inr [proxy1, proxy2, proxy3]"
  by (simp add: parse_proxy_config_def sample_env_def sample_items_def dict_get_def
        proxy1_def proxy2_def proxy3_def)

lemma search_sample:
  "proxy_search (sample_env (Parsed (Document sample_items)) os) ''proxy1'' = Inr (Some proxy1)"
  "proxy_search (sample_env (Parsed (Document sample_items)) os) ''proxy2'' = Inr (Some proxy2)"
  "proxy_search (sample_env (Parsed (Document sample_items)) os) ''proxy3'' = Inr (Some proxy3)"
  by (simp_all add: proxy_search_def parse_sample) (simp_all add: proxy1_def proxy2_def proxy3_def)

lemma sample_identity_files: "\<forall>p\<in>set [proxy1, proxy2, proxy3]. \<exists>i. identity_file p = SStr i"
  by (simp add: proxy1_def proxy2_def proxy3_def)

lemma sample_patterns:
  "pattern (port proxy1) (home_expanduser ''~/.ssh/private_key'') (host proxy1) =
     ''ssh -D 9051 -i /home/user/.ssh/private_key -q -C -f -N 172.31.0.51''"
  "pattern (port proxy2) (home_expanduser []) (host proxy2) =
     ''ssh -D 9052 -i  -q -C -f -N 172.31.0.52''"
  "pattern (port proxy3) (home_expanduser ''~/.ssh/private_key'') (host proxy3) =
     ''ssh -D -- -i /home/user/.ssh/private_key -q -C -f -N --''"
  by (simp_all add: pattern_def proxy1_def proxy2_def proxy3_def home_expanduser_def
        str_int_def str_nat.simps)

lemma sample_identity_values:
  "identity_file proxy1 = SStr ''~/.ssh/private_key''"
  "identity_file proxy2 = SStr []"
  "identity_file proxy3 = SStr ''~/.ssh/private_key''"
  by (simp_all add: proxy1_def proxy2_def proxy3_def)

section \<open>Loading the configuration and looking a proxy up\<close>

lemma parse_items_valid:
  "\<forall>kd\<in>set items. snd kd \<noteq> NotMapping \<Longrightarrow>
   \<exists>ps. parse_items items acc = Inr (acc @ ps) \<and> length ps = length items \<and>
     (\<forall>i<length items. \<forall>k d. items ! i = (k, Mapping d) \<longrightarrow>
        ps ! i = \<lparr>name = k,
                  host = (case map_of d (SStr ''host'') of None \<Rightarrow> SStr ''--'' | Some v \<Rightarrow> v),
                  port = (case map_of d (SStr ''port'') of None \<Rightarrow> SStr ''--'' | Some v \<Rightarrow> v),
                  identity_file =
                    (case map_of d (SStr ''identity_file'') of None \<Rightarrow> SStr [] | Some v \<Rightarrow> v)\<rparr>)"
proof (induction items arbitrary: acc)
  case Nil
  then show ?case by simp
next
  case (Cons kd items)
  obtain k pd where kd: "kd = (k, pd)" by (cases kd)
  with Cons.prems obtain d where pd: "pd = Mapping d" by (cases pd) auto
  let ?p = "\<lparr>name = k, host = dict_get d ''host'' (SStr ''--''),
              port = dict_get d ''port'' (SStr ''--''),
              identity_file = dict_get d ''identity_file'' (SStr [])\<rparr>"
  from Cons.prems have "\<forall>kd\<in>set items. snd kd \<noteq> NotMapping" by simp
  from Cons.IH [OF this, of "acc @ [?p]"] obtain ps where
    ps: "parse_items items (acc @ [?p]) = Inr ((acc @ [?p]) @ ps)" "length ps = length items"
      "\<forall>i<length items. \<forall>k d. items ! i = (k, Mapping d) \<longrightarrow>
        ps ! i = \<lparr>name = k,
                  host = (case map_of d (SStr ''host'') of None \<Rightarrow> SStr ''--'' | Some v \<Rightarrow> v),
                  port = (case map_of d (SStr ''port'') of None \<Rightarrow> SStr ''--'' | Some v \<Rightarrow> v),
                  identity_file =
                    (case map_of d (SStr ''identity_file'') of None \<Rightarrow> SStr [] | Some v \<Rightarrow> v)\<rparr>"
    by blast
  show ?case
  proof (intro exI [of _ "?p # ps"] conjI allI impI)
    show "parse_items (kd # items) acc = Inr (acc @ ?p # ps)"
      using ps(1) by (simp add: kd pd)
    show "length (?p # ps) = length (kd # items)" using ps(2) by simp
  next
    fix i k' d'
    assume i: "i < length (kd # items)" and at: "(kd # items) ! i = (k', Mapping d')"
    show "(?p # ps) ! i = \<lparr>name = k',
                  host = (case map_of d' (SStr ''host'') of None \<Rightarrow> SStr ''--'' | Some v \<Rightarrow> v),
                  port = (case map_of d' (SStr ''port'') of None \<Rightarrow> SStr ''--'' | Some v \<Rightarrow> v),
                  identity_file =
                    (case map_of d' (SStr ''identity_file'') of None \<Rightarrow> SStr [] | Some v \<Rightarrow> v)\<rparr>"
    proof (cases i)
      case 0
      with at show ?thesis by (simp add: kd pd dict_get_def)
    next
      case (Suc j)
      with i at ps(3) show ?thesis by simp
    qed
  qed
qed

lemma search_loop_None: "(\<forall>p\<in>set ps. name p \<noteq> SStr n) \<Longrightarrow> search_loop ps n = None"
  by (induction ps) auto

lemma search_loop_Some:
  "distinct (map name ps) \<Longrightarrow> p \<in> set ps \<Longrightarrow> name p = SStr n \<Longrightarrow> search_loop ps n = Some p"
proof (induction ps)
  case Nil
  then show ?case by simp
next
  case (Cons q ps)
  show ?case
  proof (cases "q = p")
    case True
    with Cons.prems show ?thesis by simp
  next
    case False
    with Cons.prems have mem: "p \<in> set ps" by simp
    then have "name p \<in> set (map name ps)" by simp
    with Cons.prems have "name q \<noteq> SStr n" by auto
    with Cons mem show ?thesis by simp
  qed
qed

text \<open>
  C9. A configuration whose document is a mapping with \<open>N\<close> uniquely named entries, each
  entry a sub-mapping, loads as exactly \<open>N\<close> records in the order of the keys. The name
  of each record is its key; host and port are the entry's values, or \<^verbatim>\<open>"--"\<close> when
  the entry has none; the identity file is the entry's value, or the empty string.
  Searching a name in what was loaded gives the record of that name, which is the only
  one, and \<^verbatim>\<open>None\<close> when no record has the name.
\<close>

theorem parse_proxy_config_valid:
  assumes cfg: "config env = Parsed (Document items)"
    and maps: "\<forall>kd\<in>set items. snd kd \<noteq> NotMapping"
    and uniq: "distinct (map fst items)"
  shows "\<exists>ps. parse_proxy_config env = Inr ps \<and> length ps = length items \<and>
           map name ps = map fst items \<and>
           (\<forall>i<length items. \<forall>k d. items ! i = (k, Mapping d) \<longrightarrow>
              ps ! i =
                \<lparr>name = k,
                 host = (case map_of d (SStr ''host'') of None \<Rightarrow> SStr ''--'' | Some v \<Rightarrow> v),
                 port = (case map_of d (SStr ''port'') of None \<Rightarrow> SStr ''--'' | Some v \<Rightarrow> v),
                 identity_file =
                   (case map_of d (SStr ''identity_file'') of None \<Rightarrow> SStr [] | Some v \<Rightarrow> v)\<rparr>) \<and>
           (\<forall>n p. p \<in> set ps \<and> name p = SStr n \<longrightarrow>
              proxy_search env n = Inr (Some p) \<and>
              (\<forall>q\<in>set ps. name q = SStr n \<longrightarrow> q = p)) \<and>
           (\<forall>n. (\<forall>p\<in>set ps. name p \<noteq> SStr n) \<longrightarrow> proxy_search env n = Inr None)"
proof -
  from parse_items_valid [OF maps, of "[]"] obtain ps where
    ps: "parse_items items [] = Inr ps" "length ps = length items"
      "\<forall>i<length items. \<forall>k d. items ! i = (k, Mapping d) \<longrightarrow>
        ps ! i = \<lparr>name = k,
                  host = (case map_of d (SStr ''host'') of None \<Rightarrow> SStr ''--'' | Some v \<Rightarrow> v),
                  port = (case map_of d (SStr ''port'') of None \<Rightarrow> SStr ''--'' | Some v \<Rightarrow> v),
                  identity_file =
                    (case map_of d (SStr ''identity_file'') of None \<Rightarrow> SStr [] | Some v \<Rightarrow> v)\<rparr>"
    by auto
  have load: "parse_proxy_config env = Inr ps"
    using ps(1) by (simp add: parse_proxy_config_def cfg)
  have names: "map name ps = map fst items"
  proof (rule nth_equalityI)
    show "length (map name ps) = length (map fst items)" using ps(2) by simp
  next
    fix i
    assume "i < length (map name ps)"
    then have i: "i < length items" using ps(2) by simp
    obtain k pd where at: "items ! i = (k, pd)" by (cases "items ! i")
    from i have "items ! i \<in> set items" by simp
    with maps at obtain d where "pd = Mapping d" by (cases pd) force+
    with ps(3) i at have "name (ps ! i) = k" by simp
    with i ps(2) at show "map name ps ! i = map fst items ! i" by simp
  qed
  with uniq have dist: "distinct (map name ps)" by simp
  have found: "proxy_search env n = Inr (Some p) \<and> (\<forall>q\<in>set ps. name q = SStr n \<longrightarrow> q = p)"
    if "p \<in> set ps \<and> name p = SStr n" for n p
  proof
    from that dist show "proxy_search env n = Inr (Some p)"
      by (simp add: proxy_search_def load search_loop_Some)
    show "\<forall>q\<in>set ps. name q = SStr n \<longrightarrow> q = p"
    proof (intro ballI impI)
      fix q
      assume "q \<in> set ps" "name q = SStr n"
      with dist have "search_loop ps n = Some q" by (rule search_loop_Some)
      moreover from that dist have "search_loop ps n = Some p" by (simp add: search_loop_Some)
      ultimately show "q = p" by simp
    qed
  qed
  have absent: "proxy_search env n = Inr None" if "\<forall>p\<in>set ps. name p \<noteq> SStr n" for n
    using that by (simp add: proxy_search_def load search_loop_None)
  from load ps(2,3) names found absent show ?thesis by blast
qed

theorem parse_proxy_config_valid_witness:
  "\<exists>ps. parse_proxy_config (sample_env (Parsed (Document sample_items)) (os_exit 1)) = Inr ps \<and>
     length ps = 3 \<and> map name ps = [SStr ''proxy1'', SStr ''proxy2'', SStr ''proxy3''] \<and>
     ps ! 1 = proxy2 \<and> ps ! 2 = proxy3 \<and>
     (proxy1 \<in> set ps \<longrightarrow>
        proxy_search (sample_env (Parsed (Document sample_items)) (os_exit 1)) ''proxy1'' =
          Inr (Some proxy1)) \<and>
     ((\<forall>p\<in>set ps. name p \<noteq> SStr ''nonexistent'') \<longrightarrow>
        proxy_search (sample_env (Parsed (Document sample_items)) (os_exit 1)) ''nonexistent'' =
          Inr None)"
proof -
  let ?env = "sample_env (Parsed (Document sample_items)) (os_exit 1)"
  have cfg: "config ?env = Parsed (Document sample_items)" by (simp add: sample_env_def)
  have maps: "\<forall>kd\<in>set sample_items. snd kd \<noteq> NotMapping" by (simp add: sample_items_def)
  have uniq: "distinct (map fst sample_items)" by (simp add: sample_items_def)
  from parse_proxy_config_valid [OF cfg maps uniq] obtain ps where
    ps: "parse_proxy_config ?env = Inr ps" "length ps = length sample_items"
      "map name ps = map fst sample_items"
      "\<forall>i<length sample_items. \<forall>k d. sample_items ! i = (k, Mapping d) \<longrightarrow>
         ps ! i =
           \<lparr>name = k,
            host = (case map_of d (SStr ''host'') of None \<Rightarrow> SStr ''--'' | Some v \<Rightarrow> v),
            port = (case map_of d (SStr ''port'') of None \<Rightarrow> SStr ''--'' | Some v \<Rightarrow> v),
            identity_file =
              (case map_of d (SStr ''identity_file'') of None \<Rightarrow> SStr [] | Some v \<Rightarrow> v)\<rparr>"
      "\<forall>n p. p \<in> set ps \<and> name p = SStr n \<longrightarrow>
         proxy_search ?env n = Inr (Some p) \<and> (\<forall>q\<in>set ps. name q = SStr n \<longrightarrow> q = p)"
      "\<forall>n. (\<forall>p\<in>set ps. name p \<noteq> SStr n) \<longrightarrow> proxy_search ?env n = Inr None"
    by blast
  have p2: "ps ! 1 = proxy2"
    using ps(4) [rule_format, of 1] by (simp add: sample_items_def proxy2_def)
  have p3: "ps ! 2 = proxy3"
    using ps(4) [rule_format, of 2] by (simp add: sample_items_def proxy3_def)
  have s1: "proxy1 \<in> set ps \<longrightarrow> proxy_search ?env ''proxy1'' = Inr (Some proxy1)"
    using ps(5) [rule_format, of proxy1 "''proxy1''"] by (simp add: proxy1_def)
  from ps(1,2,3,6) p2 p3 s1 show ?thesis
    by (intro exI [of _ ps]) (simp add: sample_items_def)
qed

section \<open>A configuration that cannot be loaded\<close>

text \<open>
  C2, as the claim states it, fails for every command that loads the configuration: with
  no configuration file, \<^verbatim>\<open>info\<close> ends with the \<open>FileNotFoundError\<close> of
  \<^verbatim>\<open>open\<close> at the top level of \<^verbatim>\<open>main\<close>, having printed nothing; with a file the
  parser rejects, \<^verbatim>\<open>list\<close> ends with the parser's error after its heading.
\<close>

theorem config_error_counterexample:
  "main (sample_env Missing (os_exit 0)) (Some (Cmd_info ''proxy1'')) st0 =
     (Inl FileNotFoundError, st0) \<and>
   main (sample_env Unparsable (os_exit 0)) (Some Cmd_list) st0 =
     (Inl YAMLError, \<lparr>world = 0, stdout = [''Listing configured Proxies:''], calls = []\<rparr>)"
  by (simp add: main_def proxy_info_def proxy_list_def proxy_search_def parse_proxy_config_def
        sample_env_def print_def st0_def)

text \<open>
  C2, amended. When the configuration file does not exist, loading raises
  \<open>FileNotFoundError\<close>; when its content is not valid YAML, loading raises the parser's
  \<open>YAMLError\<close>. No command catches either: each of the five commands ends with that
  exception, which leaves \<^verbatim>\<open>main\<close> uncaught. No error message has been printed
  (\<^verbatim>\<open>list\<close> has printed its heading, the others nothing) and no child process has
  been started.
\<close>

theorem config_errors_propagate:
  assumes "config env = Missing \<or> config env = Unparsable"
  shows "parse_proxy_config env =
           Inl (if config env = Missing then FileNotFoundError else YAMLError) \<and>
         (\<forall>a. fst (main env (Some a) st) =
                 Inl (if config env = Missing then FileNotFoundError else YAMLError) \<and>
               stdout (snd (main env (Some a) st)) =
                 stdout st @ (if a = Cmd_list then [''Listing configured Proxies:''] else []) \<and>
               calls (snd (main env (Some a) st)) = calls st \<and>
               world (snd (main env (Some a) st)) = world st)"
proof -
  let ?e = "if config env = Missing then FileNotFoundError else YAMLError"
  from assms have load: "parse_proxy_config env = Inl ?e"
    by (auto simp: parse_proxy_config_def)
  then have search: "proxy_search env n = Inl ?e" for n
    by (simp add: proxy_search_def)
  have "fst (main env (Some a) st) = Inl ?e \<and>
        stdout (snd (main env (Some a) st)) =
          stdout st @ (if a = Cmd_list then [''Listing configured Proxies:''] else []) \<and>
        calls (snd (main env (Some a) st)) = calls st \<and>
        world (snd (main env (Some a) st)) = world st" for a
  proof (cases a)
    case (Cmd_status verbose)
    then show ?thesis by (simp add: main_def proxy_status_def load)
  next
    case Cmd_list
    then show ?thesis by (simp add: main_def proxy_list_def load print_def)
  next
    case (Cmd_info n)
    then show ?thesis by (simp add: main_def proxy_info_def search)
  next
    case (Cmd_connect n)
    then show ?thesis by (simp add: main_def proxy_connect_def search)
  next
    case (Cmd_disconnect n)
    then show ?thesis by (simp add: main_def proxy_disconnect_def load search)
  qed
  with load show ?thesis by blast
qed

theorem config_errors_propagate_witness:
  "(config (sample_env Unparsable (os_exit 0)) = Missing \<or>
    config (sample_env Unparsable (os_exit 0)) = Unparsable) \<and>
   parse_proxy_config (sample_env Unparsable (os_exit 0)) = Inl YAMLError \<and>
   fst (main (sample_env Unparsable (os_exit 0)) (Some (Cmd_connect ''proxy1'')) st0) =
     Inl YAMLError \<and>
   stdout (snd (main (sample_env Unparsable (os_exit 0)) (Some (Cmd_connect ''proxy1'')) st0)) = [] \<and>
   calls (snd (main (sample_env Unparsable (os_exit 0)) (Some (Cmd_connect ''proxy1'')) st0)) = []"
proof -
  let ?env = "sample_env Unparsable (os_exit 0)"
  have cfg: "config ?env = Missing \<or> config ?env = Unparsable" by (simp add: sample_env_def)
  have u: "config ?env = Unparsable" by (simp add: sample_env_def)
  note inst = config_errors_propagate [OF cfg, of st0]
  from inst have load: "parse_proxy_config ?env = Inl YAMLError" by (simp add: u)
  from inst have
    "fst (main ?env (Some (Cmd_connect ''proxy1'')) st0) =
       Inl (if config ?env = Missing then FileNotFoundError else YAMLError) \<and>
     stdout (snd (main ?env (Some (Cmd_connect ''proxy1'')) st0)) =
       stdout st0 @
       (if Cmd_connect ''proxy1'' = Cmd_list then [''Listing configured Proxies:''] else []) \<and>
     calls (snd (main ?env (Some (Cmd_connect ''proxy1'')) st0)) = calls st0 \<and>
     world (snd (main ?env (Some (Cmd_connect ''proxy1'')) st0)) = world st0"
    by blast
  then have run:
    "fst (main ?env (Some (Cmd_connect ''proxy1'')) st0) = Inl YAMLError \<and>
     stdout (snd (main ?env (Some (Cmd_connect ''proxy1'')) st0)) = [] \<and>
     calls (snd (main ?env (Some (Cmd_connect ''proxy1'')) st0)) = []"
    by (simp add: u st0_def)
  from cfg load run show ?thesis by blast
qed

section \<open>connect\<close>

text \<open>
  C7. When the proxy found for the name has the empty string as its identity file,
  connect prints the incomplete-configuration error and returns; no child process is
  started and the world is left as it was.
\<close>

theorem connect_empty_identity:
  assumes "proxy_search env proxy_name = Inr (Some p)"
    and "identity_file p = SStr []"
  shows "proxy_connect env proxy_name st = (Inr (), print (incomplete_msg proxy_name) st) \<and>
         calls (snd (proxy_connect env proxy_name st)) = calls st \<and>
         world (snd (proxy_connect env proxy_name st)) = world st"
  using assms by (simp add: proxy_connect_def print_def)

theorem connect_empty_identity_witness:
  "proxy_search (sample_env (Parsed (Document sample_items)) (os_exit 0)) ''proxy2'' =
     Inr (Some proxy2) \<and>
   identity_file proxy2 = SStr [] \<and>
   proxy_connect (sample_env (Parsed (Document sample_items)) (os_exit 0)) ''proxy2'' st0 =
     (Inr (),
      \<lparr>world = 0,
       stdout = [''Error: Incomplete config for 'proxy2'. Check host, port, and identity_file.''],
       calls = []\<rparr>)"
proof -
  let ?env = "sample_env (Parsed (Document sample_items)) (os_exit 0)"
  have found: "proxy_search ?env ''proxy2'' = Inr (Some proxy2)"
    by (rule search_sample)
  have empty: "identity_file proxy2 = SStr []" by (simp add: proxy2_def)
  from connect_empty_identity [OF found empty, of st0] found empty show ?thesis
    by (simp add: print_def incomplete_msg_def quoted_def st0_def)
qed

text \<open>
  C3, at the input where it fails. \<open>proxy3\<close> has an identity file and neither host nor
  port, so it is loaded with \<^verbatim>\<open>"--"\<close> for both. The test of \<^verbatim>\<open>proxy_connect\<close>
  rejects empty values only: \<^verbatim>\<open>"--"\<close> passes it, no incomplete-configuration error is
  printed, and ssh is run with \<^verbatim>\<open>--\<close> as port and as host.
\<close>

theorem connect_sentinel_runs_ssh:
  "proxy_connect (sample_env (Parsed (Document sample_items)) (os_exit 0)) ''proxy3'' st0 =
     (Inr (),
      \<lparr>world = 1,
       stdout =
         [''Establishing SOCKS proxy with: proxy3 (--:--)'',
          ''SSH command: ssh -D -- -i /home/user/.ssh/private_key -q -C -f -N --'',
          ''Connection established to -- on SOCKS port --.''],
       calls =
         [(Argv [''ssh'', ''-D'', ''--'', ''-i'', ''/home/user/.ssh/private_key'',
                 ''-q'', ''-C'', ''-f'', ''-N'', ''--''],
           Exited 0)]\<rparr>)"
proof -
  let ?env = "sample_env (Parsed (Document sample_items)) (os_exit 0)"
  have found: "proxy_search ?env ''proxy3'' = Inr (Some proxy3)"
    by (rule search_sample)
  show ?thesis
    unfolding proxy_connect_def found
    by (simp add: proxy3_def name_host_port_def connect_cmd_def Let_def
          subprocess_run_def print_def st0_def sample_env_def home_expanduser_def os_exit_def)
qed

theorem connect_sentinel_runs_ssh_witness:
  "fst (proxy_connect (sample_env (Parsed (Document sample_items)) (os_exit 0)) ''proxy3'' st0) =
     Inr () \<and>
   map fst (calls (snd (proxy_connect (sample_env (Parsed (Document sample_items)) (os_exit 0))
                          ''proxy3'' st0))) =
     [Argv [''ssh'', ''-D'', ''--'', ''-i'', ''/home/user/.ssh/private_key'',
            ''-q'', ''-C'', ''-f'', ''-N'', ''--'']]"
  using connect_sentinel_runs_ssh by simp

section \<open>The three spellings of the command line\<close>

lemma sublist_same_length: "sublist xs ys \<Longrightarrow> length xs = length ys \<Longrightarrow> xs = ys"
  by (auto simp: sublist_def)

lemma pattern_neq_ssh_cmd_pattern: "pattern p i h \<noteq> ssh_cmd_pattern p i h"
  by (simp add: pattern_def ssh_cmd_pattern_def)

lemma length_pattern: "length (pattern p i h) = length (ssh_cmd_pattern p i h)"
  by (simp add: pattern_def ssh_cmd_pattern_def)

lemma join_connect_cmd: "join '' '' (connect_cmd p i h) = pattern p i (SStr h)"
  by (simp add: connect_cmd_def pattern_def)

text \<open>
  C1. For a proxy whose identity file is a string \<open>i\<close>: the pattern \<^verbatim>\<open>proxy_status\<close>
  gives to pgrep is
  \<^verbatim>\<open>ssh -D {port} -i {identity} -q -C -f -N {host}\<close> and the pattern
  \<^verbatim>\<open>_disconnect_single_proxy\<close> gives to pkill is
  \<^verbatim>\<open>ssh -D {port} -N {host} -q -C -f -i {identity}\<close>, both with the identity file after
  \<^verbatim>\<open>expanduser\<close>. The two strings are never equal. When \<^verbatim>\<open>proxy_connect\<close> gets as far as
  running ssh for this proxy (host, port and identity file pass its test, the host is a
  string), the argument vector it runs, joined with spaces, contains the status pattern as a
  contiguous substring and does not contain the kill pattern.
\<close>

theorem status_and_kill_patterns:
  assumes "identity_file p = SStr i"
  shows
    "(let S = ''ssh -D '' @ py_str (port p) @ '' -i '' @ expanduser env i @ '' -q -C -f -N '' @
              py_str (host p);
          K = ''ssh -D '' @ py_str (port p) @ '' -N '' @ py_str (host p) @ '' -q -C -f -i '' @
              expanduser env i
      in map fst (calls (snd (status_loop env [p] connected st))) =
           map fst (calls st) @ [Argv [''pgrep'', ''-af'', S]] \<and>
         map fst (calls (snd (disconnect_single_proxy env p st))) =
           map fst (calls st) @ [Argv [''pkill'', ''-f'', K]] \<and>
         S \<noteq> K \<and>
         (\<forall>n h. proxy_search env n = Inr (Some p) \<and> host p = SStr h \<and> h \<noteq> [] \<and>
                truthy (port p) \<and> i \<noteq> [] \<longrightarrow>
            (\<exists>argv. map fst (calls (snd (proxy_connect env n st))) =
                      map fst (calls st) @ [Argv argv] \<and>
                    sublist S (join '' '' argv) \<and> \<not> sublist K (join '' '' argv))))"
proof -
  let ?S = "pattern (port p) (expanduser env i) (host p)"
  let ?K = "ssh_cmd_pattern (port p) (expanduser env i) (host p)"
  have status: "map fst (calls (snd (status_loop env [p] connected st))) =
      map fst (calls st) @ [Argv [''pgrep'', ''-af'', ?S]]"
    using assms
    by (cases "os_run env (Argv [''pgrep'', ''-af'', ?S]) (world st)")
       (simp add: subprocess_run_def Let_def split: proc_result.splits)
  have kill: "map fst (calls (snd (disconnect_single_proxy env p st))) =
      map fst (calls st) @ [Argv [''pkill'', ''-f'', ?K]]"
    using assms
    by (cases "os_run env (Argv [''pkill'', ''-f'', ?K]) (world st)")
       (simp add: disconnect_single_proxy_def subprocess_run_def print_def Let_def
          split: proc_result.splits)
  have neq: "?S \<noteq> ?K" by (rule pattern_neq_ssh_cmd_pattern)
  have conn: "\<exists>argv. map fst (calls (snd (proxy_connect env n st))) =
                      map fst (calls st) @ [Argv argv] \<and>
                    sublist ?S (join '' '' argv) \<and> \<not> sublist ?K (join '' '' argv)"
    if h: "proxy_search env n = Inr (Some p) \<and> host p = SStr h \<and> h \<noteq> [] \<and>
           truthy (port p) \<and> i \<noteq> []" for n h
  proof (intro exI [of _ "connect_cmd (port p) (expanduser env i) h"] conjI)
    show "map fst (calls (snd (proxy_connect env n st))) =
        map fst (calls st) @ [Argv (connect_cmd (port p) (expanduser env i) h)]"
      using assms h
      by (cases "os_run env (Argv (connect_cmd (port p) (expanduser env i) h)) (world st)")
         (simp add: proxy_connect_def subprocess_run_def print_def Let_def
            split: proc_result.splits)
    from h have j: "join '' '' (connect_cmd (port p) (expanduser env i) h) = ?S"
      by (simp add: join_connect_cmd)
    show "sublist ?S (join '' '' (connect_cmd (port p) (expanduser env i) h))"
      by (simp add: j)
    show "\<not> sublist ?K (join '' '' (connect_cmd (port p) (expanduser env i) h))"
      using sublist_same_length [of ?K ?S] neq length_pattern [of "port p" "expanduser env i" "host p"]
      by (auto simp: j)
  qed
  have S: "''ssh -D '' @ py_str (port p) @ '' -i '' @ expanduser env i @ '' -q -C -f -N '' @
      py_str (host p) = ?S"
    by (simp add: pattern_def)
  have K: "''ssh -D '' @ py_str (port p) @ '' -N '' @ py_str (host p) @ '' -q -C -f -i '' @
      expanduser env i = ?K"
    by (simp add: ssh_cmd_pattern_def)
  from status kill neq conn show ?thesis
    unfolding Let_def S K by blast
qed

theorem status_and_kill_patterns_witness:
  "identity_file proxy1 = SStr ''~/.ssh/private_key'' \<and>
   map fst (calls (snd (status_loop (sample_env (Parsed (Document sample_items)) (os_exit 0))
                          [proxy1] [] st0))) =
     [Argv [''pgrep'', ''-af'',
            ''ssh -D 9051 -i /home/user/.ssh/private_key -q -C -f -N 172.31.0.51'']] \<and>
   map fst (calls (snd (disconnect_single_proxy
                          (sample_env (Parsed (Document sample_items)) (os_exit 0)) proxy1 st0))) =
     [Argv [''pkill'', ''-f'',
            ''ssh -D 9051 -N 172.31.0.51 -q -C -f -i /home/user/.ssh/private_key'']] \<and>
   (\<exists>argv. map fst (calls (snd (proxy_connect
                                  (sample_env (Parsed (Document sample_items)) (os_exit 0))
                                  ''proxy1'' st0))) = [Argv argv] \<and>
      sublist ''ssh -D 9051 -i /home/user/.ssh/private_key -q -C -f -N 172.31.0.51''
        (join '' '' argv) \<and>
      \<not> sublist ''ssh -D 9051 -N 172.31.0.51 -q -C -f -i /home/user/.ssh/private_key''
          (join '' '' argv))"
proof -
  let ?env = "sample_env (Parsed (Document sample_items)) (os_exit 0)"
  have idf: "identity_file proxy1 = SStr ''~/.ssh/private_key''" by (simp add: proxy1_def)
  have found: "proxy_search ?env ''proxy1'' = Inr (Some proxy1)"
    by (rule search_sample)
  have exp: "expanduser ?env ''~/.ssh/private_key'' = ''/home/user/.ssh/private_key''"
    by (simp add: sample_env_def home_expanduser_def)
  have port: "py_str (port proxy1) = ''9051''"
    by (simp add: proxy1_def str_int_def str_nat.simps)
  have host: "host proxy1 = SStr ''172.31.0.51''" by (simp add: proxy1_def)
  note inst = status_and_kill_patterns [OF idf, of ?env "[]" st0, unfolded Let_def exp port]
  from inst have status:
    "map fst (calls (snd (status_loop ?env [proxy1] [] st0))) =
       [Argv [''pgrep'', ''-af'',
              ''ssh -D 9051 -i /home/user/.ssh/private_key -q -C -f -N 172.31.0.51'']]"
    by (simp add: host st0_def)
  from inst have kill:
    "map fst (calls (snd (disconnect_single_proxy ?env proxy1 st0))) =
       [Argv [''pkill'', ''-f'',
              ''ssh -D 9051 -N 172.31.0.51 -q -C -f -i /home/user/.ssh/private_key'']]"
    by (simp add: host st0_def)
  from inst have
    "\<forall>n h. proxy_search ?env n = Inr (Some proxy1) \<and> host proxy1 = SStr h \<and> h \<noteq> [] \<and>
           truthy (port proxy1) \<and> ''~/.ssh/private_key'' \<noteq> [] \<longrightarrow>
       (\<exists>argv. map fst (calls (snd (proxy_connect ?env n st0))) =
                 map fst (calls st0) @ [Argv argv] \<and>
          sublist (''ssh -D '' @ ''9051'' @ '' -i '' @ ''/home/user/.ssh/private_key'' @
                   '' -q -C -f -N '' @ py_str (host proxy1)) (join '' '' argv) \<and>
          \<not> sublist (''ssh -D '' @ ''9051'' @ '' -N '' @ py_str (host proxy1) @
                     '' -q -C -f -i '' @ ''/home/user/.ssh/private_key'') (join '' '' argv))"
    by blast
  from this [rule_format, of "''proxy1''" "''172.31.0.51''"] found host have conn:
    "\<exists>argv. map fst (calls (snd (proxy_connect ?env ''proxy1'' st0))) = [Argv argv] \<and>
       sublist ''ssh -D 9051 -i /home/user/.ssh/private_key -q -C -f -N 172.31.0.51''
         (join '' '' argv) \<and>
       \<not> sublist ''ssh -D 9051 -N 172.31.0.51 -q -C -f -i /home/user/.ssh/private_key''
           (join '' '' argv)"
    by (simp add: proxy1_def st0_def)
  from idf status kill conn show ?thesis by blast
qed

section \<open>status\<close>

lemma status_loop_step:
  assumes "identity_file p = SStr i"
    and "os_run env
           (Argv [''pgrep'', ''-af'', pattern (port p) (expanduser env i) (host p)])
           (world st) = (r, w)"
  shows "status_loop env (p # ps) connected st =
     (let st1 = st\<lparr>world := w,
                    calls := calls st @
                      [(Argv [''pgrep'', ''-af'', pattern (port p) (expanduser env i) (host p)],
                        r)]\<rparr>
      in case r of
           Exited returncode \<Rightarrow>
             status_loop env ps (if returncode = 0 then connected @ [name p] else connected) st1
         | NotLaunched \<Rightarrow> (Inl FileNotFoundError, st1))"
  using assms by (simp add: subprocess_run_def Let_def split: proc_result.splits)

lemma status_loop_exits:
  assumes "\<forall>p\<in>set ps. \<exists>i. identity_file p = SStr i"
    and "exits env
           (map (\<lambda>p. Argv [''pgrep'', ''-af'',
                           pattern (port p) (expanduser env (py_str (identity_file p)))
                             (host p)]) ps)
           (world st) rs w'"
  shows "status_loop env ps connected st =
           (Inr (connected @ map name (map fst (filter (\<lambda>pr. snd pr = 0) (zip ps rs)))),
            st\<lparr>world := w',
                calls := calls st @
                  zip (map (\<lambda>p. Argv [''pgrep'', ''-af'',
                                       pattern (port p)
                                         (expanduser env (py_str (identity_file p)))
                                         (host p)]) ps)
                      (map Exited rs)\<rparr>)"
  using assms
proof (induction ps arbitrary: connected st rs)
  case Nil
  then show ?case by (cases rs) simp_all
next
  case (Cons p ps)
  let ?search = "\<lambda>p. Argv [''pgrep'', ''-af'',
                   pattern (port p) (expanduser env (py_str (identity_file p))) (host p)]"
  from Cons.prems(1) obtain i where i: "identity_file p = SStr i" by auto
  from Cons.prems(2) obtain r rs' where rs: "rs = r # rs'" by (cases rs) simp_all
  let ?w1 = "snd (os_run env (?search p) (world st))"
  from Cons.prems(2) have run: "os_run env (?search p) (world st) = (Exited r, ?w1)"
    and rest: "exits env (map ?search ps) ?w1 rs' w'"
    by (simp_all add: rs prod_eq_iff)
  let ?st' = "st\<lparr>world := ?w1, calls := calls st @ [(?search p, Exited r)]\<rparr>"
  let ?conn' = "if r = 0 then connected @ [name p] else connected"
  have step: "status_loop env (p # ps) connected st = status_loop env ps ?conn' ?st'"
    using status_loop_step [OF i, of env st "Exited r" ?w1 ps connected] run
    by (simp add: i Let_def)
  from Cons.prems(1) have strs: "\<forall>p\<in>set ps. \<exists>i. identity_file p = SStr i" by simp
  from rest have rest': "exits env (map ?search ps) (world ?st') rs' w'" by simp
  show ?case
    unfolding step Cons.IH [OF strs rest'] by (simp add: rs)
qed

lemma filter_zero_empty:
  "length rs = length ps \<Longrightarrow>
   (map fst (filter (\<lambda>pr. snd pr = (0::int)) (zip ps rs)) = []) = (\<forall>returncode\<in>set rs. returncode \<noteq> 0)"
proof (induction ps arbitrary: rs)
  case Nil
  then show ?case by simp
next
  case (Cons p ps)
  then show ?case by (cases rs) auto
qed

text \<open>
  C4, as the claim states it, fails where no proxy is running: verbose status still runs
  one pgrep per configured proxy, and since nothing was found it prints that no proxies
  appear to be connected and never runs the diagnostic pipeline.
\<close>

theorem status_verbose_counterexample:
  "proxy_status (sample_env (Parsed (Document sample_items)) (os_exit 1)) True st0 =
     (Inr (),
      \<lparr>world = 3,
       stdout = [''No proxies appear to be connected.''],
       calls =
         [(Argv [''pgrep'', ''-af'',
                 ''ssh -D 9051 -i /home/user/.ssh/private_key -q -C -f -N 172.31.0.51''],
           Exited 1),
          (Argv [''pgrep'', ''-af'', ''ssh -D 9052 -i  -q -C -f -N 172.31.0.52''], Exited 1),
          (Argv [''pgrep'', ''-af'',
                 ''ssh -D -- -i /home/user/.ssh/private_key -q -C -f -N --''],
           Exited 1)]\<rparr>)"
  unfolding proxy_status_def parse_sample
  by (simp add: proxy1_def proxy2_def proxy3_def subprocess_run_def Let_def sample_env_def
        os_exit_def home_expanduser_def pattern_def str_int_def str_nat.simps print_def st0_def)

text \<open>
  C4, amended. When the configuration loads, every configured identity file is a string,
  and the pgrep of each configured proxy, run in turn, starts and exits with some status:
  verbose status performs the per-proxy check for every configured proxy, in order, each
  pgrep with the pattern \<^verbatim>\<open>ssh -D {port} -i {identity} -q -C -f -N {host}\<close> of its proxy.
  If at least one pgrep exited with 0 and the shell then starts the diagnostic pipeline,
  it prints \<^verbatim>\<open>Running verbose status command:\<close>, runs the pipeline and returns normally,
  without listing the connected proxies. If no pgrep exited with 0, it prints that no
  proxies appear to be connected, returns normally, and the pipeline is not run.
\<close>

theorem status_verbose:
  assumes load: "parse_proxy_config env = Inr ps"
    and strs: "\<forall>p\<in>set ps. \<exists>i. identity_file p = SStr i"
    and pgreps:
      "exits env
         (map (\<lambda>p. Argv [''pgrep'', ''-af'',
                         ''ssh -D '' @ py_str (port p) @ '' -i '' @
                         expanduser env (py_str (identity_file p)) @ '' -q -C -f -N '' @
                         py_str (host p)]) ps)
         (world st) rs w1"
  shows "length rs = length ps \<and>
         ((\<exists>returncode\<in>set rs. returncode = 0) \<and>
          os_run env (Shell verbose_cmd) w1 = (Exited r, w2) \<longrightarrow>
          proxy_status env True st =
            (Inr (),
             st\<lparr>world := w2,
                 stdout := stdout st @ [''Running verbose status command:''],
                 calls := calls st @
                   zip (map (\<lambda>p. Argv [''pgrep'', ''-af'',
                                        ''ssh -D '' @ py_str (port p) @ '' -i '' @
                                        expanduser env (py_str (identity_file p)) @
                                        '' -q -C -f -N '' @ py_str (host p)]) ps)
                       (map Exited rs) @
                   [(Shell verbose_cmd, Exited r)]\<rparr>)) \<and>
         ((\<forall>returncode\<in>set rs. returncode \<noteq> 0) \<longrightarrow>
          proxy_status env True st =
            (Inr (),
             st\<lparr>world := w1,
                 stdout := stdout st @ [''No proxies appear to be connected.''],
                 calls := calls st @
                   zip (map (\<lambda>p. Argv [''pgrep'', ''-af'',
                                        ''ssh -D '' @ py_str (port p) @ '' -i '' @
                                        expanduser env (py_str (identity_file p)) @
                                        '' -q -C -f -N '' @ py_str (host p)]) ps)
                       (map Exited rs)\<rparr>))"
proof -
  let ?search = "\<lambda>p. Argv [''pgrep'', ''-af'',
                   pattern (port p) (expanduser env (py_str (identity_file p))) (host p)]"
  have lit: "(\<lambda>p. Argv [''pgrep'', ''-af'',
                  ''ssh -D '' @ py_str (port p) @ '' -i '' @
                  expanduser env (py_str (identity_file p)) @ '' -q -C -f -N '' @
                  py_str (host p)]) = ?search"
    by (simp add: pattern_def)
  from pgreps have ex: "exits env (map ?search ps) (world st) rs w1"
    unfolding lit .
  have len: "length rs = length ps"
    using exits_length [OF ex] by simp
  note loop = status_loop_exits [OF strs ex, of "[]"]
  let ?connected = "map name (map fst (filter (\<lambda>pr. snd pr = 0) (zip ps rs)))"
  have empty: "(?connected = []) = (\<forall>returncode\<in>set rs. returncode \<noteq> 0)"
    using filter_zero_empty [OF len] by simp
  have found: "proxy_status env True st =
      (Inr (),
       st\<lparr>world := w2,
           stdout := stdout st @ [''Running verbose status command:''],
           calls := calls st @ zip (map ?search ps) (map Exited rs) @
             [(Shell verbose_cmd, Exited r)]\<rparr>)"
    if a: "(\<exists>returncode\<in>set rs. returncode = 0) \<and>
           os_run env (Shell verbose_cmd) w1 = (Exited r, w2)"
  proof -
    from a empty have ne: "?connected \<noteq> []" by blast
    from a have run: "os_run env (Shell verbose_cmd) w1 = (Exited r, w2)" by simp
    show ?thesis
      using ne run by (simp add: proxy_status_def load loop subprocess_run_def print_def)
  qed
  have none: "proxy_status env True st =
      (Inr (),
       st\<lparr>world := w1,
           stdout := stdout st @ [''No proxies appear to be connected.''],
           calls := calls st @ zip (map ?search ps) (map Exited rs)\<rparr>)"
    if a: "\<forall>returncode\<in>set rs. returncode \<noteq> 0"
  proof -
    from a empty have e: "?connected = []" by blast
    show ?thesis
      using e by (simp add: proxy_status_def load loop print_def)
  qed
  from len found none show ?thesis
    unfolding lit by blast
qed

theorem status_verbose_witness:
  "parse_proxy_config (sample_env (Parsed (Document sample_items)) os_first) =
     Inr [proxy1, proxy2, proxy3] \<and>
   identity_file proxy1 = SStr ''~/.ssh/private_key'' \<and>
   identity_file proxy2 = SStr [] \<and>
   identity_file proxy3 = SStr ''~/.ssh/private_key'' \<and>
   exits (sample_env (Parsed (Document sample_items)) os_first)
     [Argv [''pgrep'', ''-af'',
            ''ssh -D 9051 -i /home/user/.ssh/private_key -q -C -f -N 172.31.0.51''],
      Argv [''pgrep'', ''-af'', ''ssh -D 9052 -i  -q -C -f -N 172.31.0.52''],
      Argv [''pgrep'', ''-af'', ''ssh -D -- -i /home/user/.ssh/private_key -q -C -f -N --'']]
     (world st0) [0, 1, 1] 3 \<and>
   os_run (sample_env (Parsed (Document sample_items)) os_first) (Shell verbose_cmd) 3 =
     (Exited 1, 4) \<and>
   proxy_status (sample_env (Parsed (Document sample_items)) os_first) True st0 =
     (Inr (),
      \<lparr>world = 4,
       stdout = [''Running verbose status command:''],
       calls =
         [(Argv [''pgrep'', ''-af'',
                 ''ssh -D 9051 -i /home/user/.ssh/private_key -q -C -f -N 172.31.0.51''],
           Exited 0),
          (Argv [''pgrep'', ''-af'', ''ssh -D 9052 -i  -q -C -f -N 172.31.0.52''], Exited 1),
          (Argv [''pgrep'', ''-af'',
                 ''ssh -D -- -i /home/user/.ssh/private_key -q -C -f -N --''],
           Exited 1),
          (Shell verbose_cmd, Exited 1)]\<rparr>)"
proof -
  let ?env = "sample_env (Parsed (Document sample_items)) os_first"
  let ?cmds =
    "[Argv [''pgrep'', ''-af'',
            ''ssh -D 9051 -i /home/user/.ssh/private_key -q -C -f -N 172.31.0.51''],
      Argv [''pgrep'', ''-af'', ''ssh -D 9052 -i  -q -C -f -N 172.31.0.52''],
      Argv [''pgrep'', ''-af'', ''ssh -D -- -i /home/user/.ssh/private_key -q -C -f -N --'']]"
  have load: "parse_proxy_config ?env = Inr [proxy1, proxy2, proxy3]" by (rule parse_sample)
  have cmds:
    "map (\<lambda>p. Argv [''pgrep'', ''-af'',
                    ''ssh -D '' @ py_str (port p) @ '' -i '' @
                    expanduser ?env (py_str (identity_file p)) @ '' -q -C -f -N '' @
                    py_str (host p)]) [proxy1, proxy2, proxy3] = ?cmds"
    by (simp add: proxy1_def proxy2_def proxy3_def sample_env_def home_expanduser_def
          str_int_def str_nat.simps)
  have ex: "exits ?env ?cmds (world st0) [0, 1, 1] 3"
    by (simp add: sample_env_def os_first_def st0_def)
  have sh: "os_run ?env (Shell verbose_cmd) 3 = (Exited 1, 4)"
    by (simp add: sample_env_def os_first_def)
  have some: "\<exists>returncode\<in>set [0, 1, 1::int]. returncode = 0" by simp
  note inst = status_verbose [OF load sample_identity_files ex [folded cmds]]
  note found = inst [THEN conjunct2, THEN conjunct1, THEN mp, OF conjI, OF some sh]
  from found have run: "proxy_status ?env True st0 =
     (Inr (),
      \<lparr>world = 4,
       stdout = [''Running verbose status command:''],
       calls = zip ?cmds (map Exited [0, 1, 1]) @ [(Shell verbose_cmd, Exited 1)]\<rparr>)"
    unfolding cmds by (simp add: st0_def)
  from load sample_identity_values ex sh run show ?thesis by simp
qed

text \<open>
  C5, at an input where it fails. With \<open>proxy1\<close> running, the plain status prints its
  heading and then raises \<open>TypeError\<close>: \<open>connected\<close> holds the names of the running
  proxies, and the loop that prints them subscripts each name with \<^verbatim>\<open>'name'\<close>. No line
  for \<open>proxy1\<close> is printed.
\<close>

theorem status_plain_raises:
  "proxy_status (sample_env (Parsed (Document sample_items)) os_first) False st0 =
     (Inl TypeError,
      \<lparr>world = 3,
       stdout = [''Currently connected proxies:''],
       calls =
         [(Argv [''pgrep'', ''-af'',
                 ''ssh -D 9051 -i /home/user/.ssh/private_key -q -C -f -N 172.31.0.51''],
           Exited 0),
          (Argv [''pgrep'', ''-af'', ''ssh -D 9052 -i  -q -C -f -N 172.31.0.52''], Exited 1),
          (Argv [''pgrep'', ''-af'',
                 ''ssh -D -- -i /home/user/.ssh/private_key -q -C -f -N --''],
           Exited 1)]\<rparr>)"
  unfolding proxy_status_def parse_sample
  by (simp add: proxy1_def proxy2_def proxy3_def subprocess_run_def Let_def sample_env_def
        os_first_def home_expanduser_def pattern_def str_int_def str_nat.simps print_def
        st0_def getitem_def)

theorem status_plain_raises_witness:
  "fst (proxy_status (sample_env (Parsed (Document sample_items)) os_first) False st0) =
     Inl TypeError \<and>
   stdout (snd (proxy_status (sample_env (Parsed (Document sample_items)) os_first) False st0)) =
     [''Currently connected proxies:'']"
  using status_plain_raises by simp




section \<open>disconnect\<close>

lemma disconnect_single_proxy_exited:
  assumes "identity_file p = SStr i"
    and "os_run env
           (Argv [''pkill'', ''-f'', ssh_cmd_pattern (port p) (expanduser env i) (host p)])
           (world st) = (Exited returncode, w)"
  shows "disconnect_single_proxy env p st =
     (Inr (returncode = 0),
      (if returncode = 0
       then print (''Disconnected proxy: '' @ name_host_port (name p) (host p) (port p))
       else id)
        (st\<lparr>world := w,
            calls := calls st @
              [(Argv [''pkill'', ''-f'', ssh_cmd_pattern (port p) (expanduser env i) (host p)],
                Exited returncode)]\<rparr>))"
  using assms by (simp add: disconnect_single_proxy_def subprocess_run_def Let_def)

lemma disconnect_loop_exits:
  assumes "\<forall>p\<in>set ps. \<exists>i. identity_file p = SStr i"
    and "exits env
           (map (\<lambda>p. Argv [''pkill'', ''-f'',
                           ssh_cmd_pattern (port p)
                             (expanduser env (py_str (identity_file p))) (host p)]) ps)
           (world st) rs w'"
  shows "disconnect_loop env ps any_disconnected st =
           (Inr (any_disconnected \<or> (\<exists>returncode\<in>set rs. returncode = 0)),
            st\<lparr>world := w',
                stdout := stdout st @
                  map (\<lambda>p. ''Disconnected proxy: '' @
                           name_host_port (name p) (host p) (port p))
                    (map fst (filter (\<lambda>pr. snd pr = 0) (zip ps rs))),
                calls := calls st @
                  zip (map (\<lambda>p. Argv [''pkill'', ''-f'',
                                       ssh_cmd_pattern (port p)
                                         (expanduser env (py_str (identity_file p)))
                                         (host p)]) ps)
                      (map Exited rs)\<rparr>)"
  using assms
proof (induction ps arbitrary: any_disconnected st rs)
  case Nil
  then show ?case by (cases rs) simp_all
next
  case (Cons p ps)
  let ?kill = "\<lambda>p. Argv [''pkill'', ''-f'',
                 ssh_cmd_pattern (port p) (expanduser env (py_str (identity_file p))) (host p)]"
  let ?line = "\<lambda>p. ''Disconnected proxy: '' @ name_host_port (name p) (host p) (port p)"
  from Cons.prems(1) obtain i where i: "identity_file p = SStr i" by auto
  from Cons.prems(2) obtain r rs' where rs: "rs = r # rs'" by (cases rs) simp_all
  let ?w1 = "snd (os_run env (?kill p) (world st))"
  from Cons.prems(2) have run: "os_run env (?kill p) (world st) = (Exited r, ?w1)"
    and rest: "exits env (map ?kill ps) ?w1 rs' w'"
    by (simp_all add: rs prod_eq_iff)
  let ?st' = "(if r = 0 then print (?line p) else id)
                (st\<lparr>world := ?w1, calls := calls st @ [(?kill p, Exited r)]\<rparr>)"
  have single: "disconnect_single_proxy env p st = (Inr (r = 0), ?st')"
    using disconnect_single_proxy_exited [OF i, of env st r ?w1] run by (simp add: i)
  from Cons.prems(1) have strs: "\<forall>p\<in>set ps. \<exists>i. identity_file p = SStr i" by simp
  from rest have rest': "exits env (map ?kill ps) (world ?st') rs' w'"
    by (simp add: print_def)
  have step: "disconnect_loop env (p # ps) any_disconnected st =
      disconnect_loop env ps (if r = 0 then True else any_disconnected) ?st'"
    by (simp add: single)
  show ?case
    unfolding step Cons.IH [OF strs rest'] by (auto simp: rs print_def)
qed

text \<open>
  C8, as the claim states it, fails on configurations that load. Where pkill cannot be
  started, \<^verbatim>\<open>disconnect all\<close> on the three proxies of the sample makes one kill-attempt
  and ends with the exception of \<^verbatim>\<open>subprocess.run\<close>. Where the second proxy has an
  identity file that is not a string, it makes the kill-attempt of the first proxy and
  ends with the \<open>TypeError\<close> of \<^verbatim>\<open>os.path.expanduser\<close>. In neither run is there one
  kill-attempt per configured proxy.
\<close>

theorem disconnect_all_counterexample:
  "proxy_disconnect (sample_env (Parsed (Document sample_items)) os_missing) ''all'' st0 =
     (Inl FileNotFoundError,
      \<lparr>world = 0,
       stdout = [''Disconnecting from all configured proxies.''],
       calls =
         [(Argv [''pkill'', ''-f'',
                 ''ssh -D 9051 -N 172.31.0.51 -q -C -f -i /home/user/.ssh/private_key''],
           NotLaunched)]\<rparr>) \<and>
   proxy_disconnect (sample_env (Parsed (Document null_identity_items)) (os_exit 0)) ''all'' st0 =
     (Inl TypeError,
      \<lparr>world = 1,
       stdout = [''Disconnecting from all configured proxies.'',
                 ''Disconnected proxy: proxy1 (172.31.0.51:9051)''],
       calls =
         [(Argv [''pkill'', ''-f'',
                 ''ssh -D 9051 -N 172.31.0.51 -q -C -f -i /home/user/.ssh/private_key''],
           Exited 0)]\<rparr>)"
  by (simp add: proxy_disconnect_def parse_proxy_config_def sample_items_def
        null_identity_items_def dict_get_def disconnect_single_proxy_def subprocess_run_def
        Let_def print_def st0_def sample_env_def os_missing_def os_exit_def
        home_expanduser_def ssh_cmd_pattern_def name_host_port_def str_int_def str_nat.simps)

text \<open>
  C8, amended. When the configuration loads, every configured identity file is a string,
  and the pkill of each configured proxy, run in turn, starts and exits with some status:
  \<^verbatim>\<open>disconnect all\<close> returns normally after exactly one pkill per configured proxy, in
  the order of the configuration, each with the pattern
  \<^verbatim>\<open>ssh -D {port} -N {host} -q -C -f -i {identity}\<close> of its proxy. It prints its heading,
  one line for each proxy whose pkill exited with 0, and then the "no active proxies"
  message if and only if no pkill exited with 0.
\<close>

theorem disconnect_all_attempts:
  assumes load: "parse_proxy_config env = Inr ps"
    and strs: "\<forall>p\<in>set ps. \<exists>i. identity_file p = SStr i"
    and pkills:
      "exits env
         (map (\<lambda>p. Argv [''pkill'', ''-f'',
                         ''ssh -D '' @ py_str (port p) @ '' -N '' @ py_str (host p) @
                         '' -q -C -f -i '' @ expanduser env (py_str (identity_file p))]) ps)
         (world st) rs w'"
  shows "length rs = length ps \<and>
         proxy_disconnect env ''all'' st =
           (Inr (),
            st\<lparr>world := w',
                stdout := stdout st @ [''Disconnecting from all configured proxies.''] @
                  map (\<lambda>p. ''Disconnected proxy: '' @
                           py_str (name p) @ '' ('' @ py_str (host p) @ '':'' @
                           py_str (port p) @ '')'')
                    (map fst (filter (\<lambda>pr. snd pr = 0) (zip ps rs))) @
                  (if \<forall>returncode\<in>set rs. returncode \<noteq> 0
                   then [''No active proxies were found to disconnect.''] else []),
                calls := calls st @
                  zip (map (\<lambda>p. Argv [''pkill'', ''-f'',
                                       ''ssh -D '' @ py_str (port p) @ '' -N '' @
                                       py_str (host p) @ '' -q -C -f -i '' @
                                       expanduser env (py_str (identity_file p))]) ps)
                      (map Exited rs)\<rparr>) \<and>
         (''No active proxies were found to disconnect.''
            \<in> set (drop (length (stdout st))
                     (stdout (snd (proxy_disconnect env ''all'' st))))) =
           (\<forall>returncode\<in>set rs. returncode \<noteq> 0)"
proof -
  let ?kill = "\<lambda>p. Argv [''pkill'', ''-f'',
                 ssh_cmd_pattern (port p) (expanduser env (py_str (identity_file p))) (host p)]"
  let ?line = "\<lambda>p. ''Disconnected proxy: '' @ name_host_port (name p) (host p) (port p)"
  have lit: "(\<lambda>p. Argv [''pkill'', ''-f'',
                  ''ssh -D '' @ py_str (port p) @ '' -N '' @ py_str (host p) @
                  '' -q -C -f -i '' @ expanduser env (py_str (identity_file p))]) = ?kill"
    by (simp add: ssh_cmd_pattern_def)
  have line: "(\<lambda>p. ''Disconnected proxy: '' @
                  py_str (name p) @ '' ('' @ py_str (host p) @ '':'' @
                  py_str (port p) @ '')'') = ?line"
    by (simp add: name_host_port_def)
  from pkills have ex: "exits env (map ?kill ps) (world st) rs w'"
    unfolding lit .
  have len: "length rs = length ps"
    using exits_length [OF ex] by simp
  let ?st' = "print ''Disconnecting from all configured proxies.'' st"
  from ex have ex': "exits env (map ?kill ps) (world ?st') rs w'"
    by (simp add: print_def)
  note loop = disconnect_loop_exits [OF strs ex', of False]
  let ?none = "\<forall>returncode\<in>set rs. returncode \<noteq> 0"
  let ?out = "stdout st @ [''Disconnecting from all configured proxies.''] @
      map ?line (map fst (filter (\<lambda>pr. snd pr = 0) (zip ps rs))) @
      (if ?none then [''No active proxies were found to disconnect.''] else [])"
  have res: "proxy_disconnect env ''all'' st =
      (Inr (),
       st\<lparr>world := w', stdout := ?out,
           calls := calls st @ zip (map ?kill ps) (map Exited rs)\<rparr>)"
    by (simp add: proxy_disconnect_def load loop) (auto simp: print_def)
  have mem: "(''No active proxies were found to disconnect.''
      \<in> set (drop (length (stdout st)) (stdout (snd (proxy_disconnect env ''all'' st))))) =
      ?none"
    unfolding res by auto
  from len res mem show ?thesis
    unfolding lit line by blast
qed

theorem disconnect_all_attempts_witness:
  "parse_proxy_config (sample_env (Parsed (Document sample_items)) os_first) =
     Inr [proxy1, proxy2, proxy3] \<and>
   identity_file proxy1 = SStr ''~/.ssh/private_key'' \<and>
   identity_file proxy2 = SStr [] \<and>
   identity_file proxy3 = SStr ''~/.ssh/private_key'' \<and>
   exits (sample_env (Parsed (Document sample_items)) os_first)
     [Argv [''pkill'', ''-f'',
            ''ssh -D 9051 -N 172.31.0.51 -q -C -f -i /home/user/.ssh/private_key''],
      Argv [''pkill'', ''-f'', ''ssh -D 9052 -N 172.31.0.52 -q -C -f -i ''],
      Argv [''pkill'', ''-f'', ''ssh -D -- -N -- -q -C -f -i /home/user/.ssh/private_key'']]
     (world st0) [0, 1, 1] 3 \<and>
   proxy_disconnect (sample_env (Parsed (Document sample_items)) os_first) ''all'' st0 =
     (Inr (),
      \<lparr>world = 3,
       stdout = [''Disconnecting from all configured proxies.'',
                 ''Disconnected proxy: proxy1 (172.31.0.51:9051)''],
       calls =
         [(Argv [''pkill'', ''-f'',
                 ''ssh -D 9051 -N 172.31.0.51 -q -C -f -i /home/user/.ssh/private_key''],
           Exited 0),
          (Argv [''pkill'', ''-f'', ''ssh -D 9052 -N 172.31.0.52 -q -C -f -i ''], Exited 1),
          (Argv [''pkill'', ''-f'',
                 ''ssh -D -- -N -- -q -C -f -i /home/user/.ssh/private_key''],
           Exited 1)]\<rparr>)"
proof -
  let ?env = "sample_env (Parsed (Document sample_items)) os_first"
  let ?cmds =
    "[Argv [''pkill'', ''-f'',
            ''ssh -D 9051 -N 172.31.0.51 -q -C -f -i /home/user/.ssh/private_key''],
      Argv [''pkill'', ''-f'', ''ssh -D 9052 -N 172.31.0.52 -q -C -f -i ''],
      Argv [''pkill'', ''-f'', ''ssh -D -- -N -- -q -C -f -i /home/user/.ssh/private_key'']]"
  have load: "parse_proxy_config ?env = Inr [proxy1, proxy2, proxy3]" by (rule parse_sample)
  have cmds:
    "map (\<lambda>p. Argv [''pkill'', ''-f'',
                    ''ssh -D '' @ py_str (port p) @ '' -N '' @ py_str (host p) @
                    '' -q -C -f -i '' @ expanduser ?env (py_str (identity_file p))])
       [proxy1, proxy2, proxy3] = ?cmds"
    by (simp add: proxy1_def proxy2_def proxy3_def sample_env_def home_expanduser_def
          str_int_def str_nat.simps)
  have ex: "exits ?env ?cmds (world st0) [0, 1, 1] 3"
    by (simp add: sample_env_def os_first_def st0_def)
  note inst = disconnect_all_attempts [OF load sample_identity_files ex [folded cmds]]
  from inst [THEN conjunct2, THEN conjunct1] have run:
    "proxy_disconnect ?env ''all'' st0 =
     (Inr (),
      \<lparr>world = 3,
       stdout = [''Disconnecting from all configured proxies.'',
                 ''Disconnected proxy: proxy1 (172.31.0.51:9051)''],
       calls = zip ?cmds (map Exited [0, 1, 1])\<rparr>)"
    unfolding cmds
    by (simp add: st0_def proxy1_def proxy2_def proxy3_def str_int_def str_nat.simps)
  from load sample_identity_values ex run show ?thesis by simp
qed

text \<open>
  C10. \<^verbatim>\<open>disconnect\<close> with the name of one configured proxy (a name other than
  \<^verbatim>\<open>all\<close>), when pkill finds no process and exits with a non-zero status: the
  \<^verbatim>\<open>False\<close> that \<^verbatim>\<open>_disconnect_single_proxy\<close> returns is dropped, the command returns
  normally, and nothing at all has been printed; the one pkill is all that happened.
\<close>

theorem disconnect_single_silent:
  assumes "proxy_search env proxy_name = Inr (Some p)"
    and "proxy_name \<noteq> ''all''"
    and "identity_file p = SStr i"
    and "os_run env
           (Argv [''pkill'', ''-f'', ssh_cmd_pattern (port p) (expanduser env i) (host p)])
           (world st) = (Exited returncode, w)"
    and "returncode \<noteq> 0"
  shows "disconnect_single_proxy env p st =
           (Inr False,
            st\<lparr>world := w,
                calls := calls st @
                  [(Argv [''pkill'', ''-f'',
                          ssh_cmd_pattern (port p) (expanduser env i) (host p)],
                    Exited returncode)]\<rparr>) \<and>
         proxy_disconnect env proxy_name st =
           (Inr (),
            st\<lparr>world := w,
                calls := calls st @
                  [(Argv [''pkill'', ''-f'',
                          ssh_cmd_pattern (port p) (expanduser env i) (host p)],
                    Exited returncode)]\<rparr>) \<and>
         stdout (snd (proxy_disconnect env proxy_name st)) = stdout st"
  using assms disconnect_single_proxy_exited [of p i env st returncode w]
  by (simp add: proxy_disconnect_def)

theorem disconnect_single_silent_witness:
  "proxy_search (sample_env (Parsed (Document sample_items)) (os_exit 1)) ''proxy1'' =
     Inr (Some proxy1) \<and>
   ''proxy1'' \<noteq> ''all'' \<and>
   identity_file proxy1 = SStr ''~/.ssh/private_key'' \<and>
   os_run (sample_env (Parsed (Document sample_items)) (os_exit 1))
     (Argv [''pkill'', ''-f'',
            ssh_cmd_pattern (port proxy1)
              (expanduser (sample_env (Parsed (Document sample_items)) (os_exit 1))
                 ''~/.ssh/private_key'')
              (host proxy1)])
     (world st0) = (Exited 1, 1) \<and>
   (1::int) \<noteq> 0 \<and>
   proxy_disconnect (sample_env (Parsed (Document sample_items)) (os_exit 1)) ''proxy1'' st0 =
     (Inr (),
      \<lparr>world = 1, stdout = [],
       calls =
         [(Argv [''pkill'', ''-f'',
                 ''ssh -D 9051 -N 172.31.0.51 -q -C -f -i /home/user/.ssh/private_key''],
           Exited 1)]\<rparr>)"
proof -
  let ?env = "sample_env (Parsed (Document sample_items)) (os_exit 1)"
  have found: "proxy_search ?env ''proxy1'' = Inr (Some proxy1)" by (rule search_sample)
  have nall: "''proxy1'' \<noteq> ''all''" by simp
  have idf: "identity_file proxy1 = SStr ''~/.ssh/private_key''" by (simp add: proxy1_def)
  have run: "os_run ?env
      (Argv [''pkill'', ''-f'',
             ssh_cmd_pattern (port proxy1) (expanduser ?env ''~/.ssh/private_key'') (host proxy1)])
      (world st0) = (Exited 1, 1)"
    by (simp add: sample_env_def os_exit_def st0_def)
  have nz: "(1::int) \<noteq> 0" by simp
  have pat: "ssh_cmd_pattern (port proxy1) (expanduser ?env ''~/.ssh/private_key'') (host proxy1) =
      ''ssh -D 9051 -N 172.31.0.51 -q -C -f -i /home/user/.ssh/private_key''"
    by (simp add: ssh_cmd_pattern_def proxy1_def sample_env_def home_expanduser_def
          str_int_def str_nat.simps)
  from disconnect_single_silent [OF found nall idf run nz] found nall idf run nz show ?thesis
    unfolding pat by (simp add: st0_def)
qed

end
